theory Spec2Isabelle
  imports Main "HOL-Library.Word"
begin

section \<open>Path helpers of the Python standard library (POSIX flavour)\<close>

text \<open>
  \<open>cli.py\<close> derives the default output path with \<open>os.path.basename\<close> and
  \<open>os.path.splitext\<close>. Both are transcribed here from \<open>posixpath\<close> /
  \<open>genericpath\<close>: the separator is \<open>/\<close>, the extension separator is \<open>.\<close>.
  Python strings are modelled as \<open>string\<close>.
\<close>

text \<open>\<open>str.rfind\<close>: the highest index of the character, or \<open>-1\<close>.\<close>

definition rfind :: "string \<Rightarrow> char \<Rightarrow> int" where
  "rfind p c =
     (if c \<in> set p
      then int (length p) - 1 - int (length (takeWhile (\<lambda>x. x \<noteq> c) (rev p)))
      else - 1)"

text \<open>
  \<^verbatim>\<open>
  def basename(p):
      i = p.rfind(sep) + 1
      return p[i:]
  \<close>
\<close>

definition basename :: "string \<Rightarrow> string" where
  "basename p = (let i = rfind p (CHR ''/'') + 1 in drop (nat i) p)"

text \<open>
  \<^verbatim>\<open>
  def _splitext(p, sep, altsep, extsep):
      sepIndex = p.rfind(sep)
      dotIndex = p.rfind(extsep)
      if dotIndex > sepIndex:
          # skip all leading dots
          filenameIndex = sepIndex + 1
          while filenameIndex < dotIndex:
              if p[filenameIndex:filenameIndex+1] != extsep:
                  return p[:dotIndex], p[dotIndex:]
              filenameIndex += 1
      return p, p[:0]
  \<close>
  The loop is \<open>splitext_loop\<close>; \<open>None\<close> means that it ran to its end without
  returning.
\<close>

function splitext_loop :: "string \<Rightarrow> nat \<Rightarrow> nat \<Rightarrow> (string \<times> string) option" where
  "splitext_loop p filenameIndex dotIndex =
     (if filenameIndex < dotIndex
      then (if take 1 (drop filenameIndex p) \<noteq> ''.''
            then Some (take dotIndex p, drop dotIndex p)
            else splitext_loop p (Suc filenameIndex) dotIndex)
      else None)"
  by pat_completeness auto
termination
  by (relation "measure (\<lambda>(p, i, d). d - i)") auto

declare splitext_loop.simps [simp del]

definition splitext :: "string \<Rightarrow> string \<times> string" where
  "splitext p =
     (let sepIndex = rfind p (CHR ''/'');
          dotIndex = rfind p (CHR ''.'')
      in if dotIndex > sepIndex
         then (case splitext_loop p (nat (sepIndex + 1)) (nat dotIndex) of
                 Some r \<Rightarrow> r
               | None \<Rightarrow> (p, []))
         else (p, []))"

section \<open>The command-line tool\<close>

text \<open>
  \<^verbatim>\<open>
  def _default_output_path(input_path: str) -> str:
      base, _ext = os.path.splitext(os.path.basename(input_path))
      return f"{base}.wav"
  \<close>
  The name loses its leading underscore here.
\<close>

definition default_output_path :: "string \<Rightarrow> string" where
  "default_output_path input_path =
     (let (base, ext) = splitext (basename input_path) in base @ ''.wav'')"


text \<open>
  Python's format specification \<open>{semitones:+d}\<close>: the decimal digits of the
  absolute value behind a sign that is always written.
\<close>

definition digit_char :: "nat \<Rightarrow> char" where
  "digit_char d = ''0123456789'' ! d"

function decimal :: "nat \<Rightarrow> string" where
  "decimal n = (if n < 10 then [digit_char n] else decimal (n div 10) @ [digit_char (n mod 10)])"
  by pat_completeness auto
termination
  by (relation "measure id") auto

declare decimal.simps [simp del]

definition format_plus_d :: "int \<Rightarrow> string" where
  "format_plus_d n = (if n < 0 then ''-'' else ''+'') @ decimal (nat \<bar>n\<bar>)"

subsection \<open>Data\<close>

text \<open>
  The parameters that click hands to \<open>main\<close>: \<open>filepath\<close>, \<open>output\<close>,
  \<open>transpose\<close> and \<open>yes\<close>.
\<close>

record args =
  filepath :: string
  output_arg :: "string option"
  transpose_arg :: "int option"
  yes :: bool

type_synonym bytes = "8 word list"

text \<open>The filesystem: the paths that exist, with their contents.\<close>

type_synonym fs = "string \<rightharpoonup> bytes"

text \<open>
  What the run does to the outside world, in the order in which it does it:
  the prompt of \<open>click.confirm\<close>, a line printed by \<open>click.echo\<close>, the import
  of the optional dependencies, the allocation of the temporary file, a run of ffmpeg
  (input, destination, whether \<open>overwrite_output\<close> was applied), and the calls of
  \<open>librosa.load\<close>, \<open>librosa.effects.pitch_shift\<close>, \<open>os.remove\<close> and
  \<open>soundfile.write\<close>.
\<close>

datatype event =
    Confirm string
  | Echo string
  | ImportDeps
  | MkTemp
  | Transcode string string bool
  | Load string
  | PitchShift int
  | Remove string
  | SfWrite string

record world =
  files :: fs
  log :: "event list"

text \<open>
  The \<open>stderr\<close> attribute of an \<open>ffmpeg.Error\<close>: bytes, or any other value, kept
  as the text that an f-string renders for it.
\<close>

datatype stderr_attr = StderrBytes bytes | StderrOther string

text \<open>
  The three ways a call of \<open>ffmpeg.run\<close> ends: it returns (the process exited
  with status 0); it raises \<open>ffmpeg.Error\<close> (the process exited non-zero), with
  the captured error stream; or it raises something else, such as the \<open>OSError\<close> of
  a missing ffmpeg binary. In the first two cases the result tells what the process left
  at the destination (\<open>None\<close>: the destination is as it was).
\<close>

datatype run_result =
    RunOk "bytes option"
  | RunError stderr_attr "bytes option"
  | RunOther string

text \<open>The answer of \<open>click.confirm\<close>; on an interrupt or end of input it raises \<open>Abort\<close>.\<close>

datatype answer = Yes | No | Interrupted

text \<open>
  The exceptions that travel through \<open>main\<close>; an exception of any other class is
  \<open>OtherException\<close> with its \<open>str\<close>.
\<close>

datatype exn =
    Abort
  | ClickException string
  | FfmpegError stderr_attr
  | OtherException string

text \<open>
  The collaborators of the program, none of which is code of the repository: the user
  at the prompt, the Python environment, ffmpeg, librosa, soundfile and the operating
  system. \<open>'s\<close> is the type of sample buffers, which the program only passes on.
  \<open>sf_write\<close> gives the bytes that \<open>soundfile.write\<close> puts at the path (it opens
  the path for writing, whether or not a file is there) or the text of its exception;
  \<open>remove_fails\<close> tells for which paths \<open>os.remove\<close> raises although the path
  exists; \<open>decode_ignore\<close> is \<open>bytes.decode('utf-8', errors='ignore')\<close>.
\<close>

record 's env =
  confirm_answer :: "string \<Rightarrow> answer"
  deps_available :: bool
  mktemp :: "fs \<Rightarrow> string + string"
  ffmpeg_run :: "string \<Rightarrow> string \<Rightarrow> bool \<Rightarrow> fs \<Rightarrow> run_result"
  librosa_load :: "string \<Rightarrow> fs \<Rightarrow> string + ('s \<times> nat)"
  pitch_shift :: "'s \<Rightarrow> int \<Rightarrow> nat \<Rightarrow> string + 's"
  sf_write :: "string \<Rightarrow> 's \<Rightarrow> nat \<Rightarrow> string + bytes"
  remove_fails :: "string \<Rightarrow> bool"
  decode_ignore :: "bytes \<Rightarrow> string"

subsection \<open>Primitive steps\<close>

definition emit :: "event \<Rightarrow> world \<Rightarrow> world" where
  "emit e w = w\<lparr>log := log w @ [e]\<rparr>"

definition path_exists :: "string \<Rightarrow> world \<Rightarrow> bool" where
  "path_exists p w = (files w p \<noteq> None)"

text \<open>\<open>os.remove\<close>: the flag tells whether it raised.\<close>

definition os_remove :: "'s env \<Rightarrow> string \<Rightarrow> world \<Rightarrow> bool \<times> world" where
  "os_remove env p w =
     (let w' = emit (Remove p) w
      in if remove_fails env p \<or> files w p = None then (True, w')
         else (False, w'\<lparr>files := (files w')(p := None)\<rparr>))"

text \<open>
  \<open>ffmpeg.run\<close> on the stream \<open>input \<rightarrow> output(dest, format='wav',
  acodec='pcm_s16le', ac=2, ar='44100')\<close>, with \<open>overwrite_output\<close> when
  \<open>allow\<close> is set.
\<close>

definition run_ffmpeg ::
  "'s env \<Rightarrow> string \<Rightarrow> string \<Rightarrow> bool \<Rightarrow> world \<Rightarrow> (exn + unit) \<times> world" where
  "run_ffmpeg env inp dest allow w =
     (let w' = emit (Transcode inp dest allow) w
      in case ffmpeg_run env inp dest allow (files w) of
           RunOk left \<Rightarrow>
             (Inr (),
              (case left of None \<Rightarrow> w' | Some c \<Rightarrow> w'\<lparr>files := (files w')(dest \<mapsto> c)\<rparr>))
         | RunError se left \<Rightarrow>
             (Inl (FfmpegError se),
              (case left of None \<Rightarrow> w' | Some c \<Rightarrow> w'\<lparr>files := (files w')(dest \<mapsto> c)\<rparr>))
         | RunOther m \<Rightarrow> (Inl (OtherException m), w'))"

subsection \<open>The overwrite guard (lines 30 to 38)\<close>

definition prompt_text :: "string \<Rightarrow> string" where
  "prompt_text out_path =
     ''Output file '' @ [CHR 0x27] @ out_path @ [CHR 0x27] @ '' already exists. Overwrite?''"

definition aborted_text :: string where
  "aborted_text = ''Aborted: output file exists and overwrite not confirmed.''"

text \<open>
  \<^verbatim>\<open>
  overwrite = bool(yes)
  if os.path.exists(out_path) and not overwrite:
      try:
          if not click.confirm(f"Output file '{out_path}' already exists. Overwrite?", default=False):
              click.echo("Aborted: output file exists and overwrite not confirmed.")
              raise click.Abort()
          overwrite = True
      except click.Abort:
          raise
  \<close>
\<close>

definition overwrite_guard :: "'s env \<Rightarrow> string \<Rightarrow> bool \<Rightarrow> world \<Rightarrow> (exn + bool) \<times> world" where
  "overwrite_guard env out_path yes_flag w =
     (let overwrite = yes_flag
      in if path_exists out_path w \<and> \<not> overwrite
         then (let w1 = emit (Confirm (prompt_text out_path)) w
               in case confirm_answer env (prompt_text out_path) of
                    Interrupted \<Rightarrow> (Inl Abort, w1)
                  | No \<Rightarrow> (Inl Abort, emit (Echo aborted_text) w1)
                  | Yes \<Rightarrow> (Inr True, w1))
         else (Inr overwrite, w))"

subsection \<open>The direct path (lines 50 to 56)\<close>

text \<open>
  \<^verbatim>\<open>
  if overwrite:
      ffmpeg.run(ffmpeg.overwrite_output(stream), capture_stdout=False, capture_stderr=True)
  else:
      ffmpeg.run(stream, capture_stdout=False, capture_stderr=True)
  \<close>
\<close>

definition direct_path ::
  "'s env \<Rightarrow> string \<Rightarrow> string \<Rightarrow> bool \<Rightarrow> world \<Rightarrow> (exn + unit) \<times> world" where
  "direct_path env inp out_path overwrite w =
     (if overwrite then run_ffmpeg env inp out_path True w
      else run_ffmpeg env inp out_path False w)"

subsection \<open>The transpose path (lines 59 to 97)\<close>

definition missing_deps_text :: string where
  "missing_deps_text =
     ''Missing optional dependencies for transpose: install '' @ [CHR 0x27] @ ''librosa''
       @ [CHR 0x27] @ '' and '' @ [CHR 0x27] @ ''soundfile'' @ [CHR 0x27]
       @ '' (e.g. uv install . or pip install librosa soundfile)''"

text \<open>
  Lines 84 to 91, the write of the shifted samples:
  \<^verbatim>\<open>
  if overwrite and os.path.exists(out_path):
      try:
          os.remove(out_path)
      except Exception:
          pass
  sf.write(out_path, y_shifted, sr, subtype='PCM_16')
  \<close>
\<close>

definition write_output ::
  "'s env \<Rightarrow> string \<Rightarrow> bool \<Rightarrow> 's \<Rightarrow> nat \<Rightarrow> world \<Rightarrow> (exn + unit) \<times> world" where
  "write_output env out_path overwrite y_shifted sr w =
     (let w1 = (if overwrite \<and> path_exists out_path w
                then snd (os_remove env out_path w) else w);
          w2 = emit (SfWrite out_path) w1
      in case sf_write env out_path y_shifted sr of
           Inl m \<Rightarrow> (Inl (OtherException m), w2)
         | Inr c \<Rightarrow> (Inr (), w2\<lparr>files := (files w2)(out_path \<mapsto> c)\<rparr>))"

text \<open>Lines 74 to 91, the body of the inner \<open>try\<close> once the temporary file has its name.\<close>

definition transpose_steps ::
  "'s env \<Rightarrow> string \<Rightarrow> string \<Rightarrow> bool \<Rightarrow> int \<Rightarrow> string \<Rightarrow> world \<Rightarrow> (exn + unit) \<times> world" where
  "transpose_steps env inp out_path overwrite semitones tmp w =
     (case run_ffmpeg env inp tmp True w of
        (Inl e, w1) \<Rightarrow> (Inl e, w1)
      | (Inr u, w1) \<Rightarrow>
          (let w2 = emit (Load tmp) w1
           in case librosa_load env tmp (files w2) of
                Inl m \<Rightarrow> (Inl (OtherException m), w2)
              | Inr (y, sr) \<Rightarrow>
                  (let w3 = emit (PitchShift semitones) w2
                   in case pitch_shift env y semitones sr of
                        Inl m \<Rightarrow> (Inl (OtherException m), w3)
                      | Inr y_shifted \<Rightarrow> write_output env out_path overwrite y_shifted sr w3)))"

text \<open>
  The \<open>finally\<close> clause:
  \<^verbatim>\<open>
  if tmp and os.path.exists(tmp):
      try:
          os.remove(tmp)
      except Exception:
          pass
  \<close>
\<close>

definition cleanup :: "'s env \<Rightarrow> string option \<Rightarrow> world \<Rightarrow> world" where
  "cleanup env tmp w =
     (case tmp of
        None \<Rightarrow> w
      | Some t \<Rightarrow> if t \<noteq> [] \<and> path_exists t w then snd (os_remove env t w) else w)"

text \<open>
  The whole \<open>else\<close> branch: the imports, the allocation of the temporary file
  (\<open>NamedTemporaryFile(suffix='.wav', delete=False)\<close> creates it empty and keeps it
  when the \<open>with\<close> block closes it; \<open>mktemp\<close> gives the name that
  \<open>tempfile\<close> chose, up to the suffix), the steps and the \<open>finally\<close> clause.
\<close>

definition transpose_path ::
  "'s env \<Rightarrow> string \<Rightarrow> string \<Rightarrow> bool \<Rightarrow> int \<Rightarrow> world \<Rightarrow> (exn + unit) \<times> world" where
  "transpose_path env inp out_path overwrite semitones w =
     (let w0 = emit ImportDeps w
      in if \<not> deps_available env then (Inl (ClickException missing_deps_text), w0)
         else (let w1 = emit MkTemp w0
               in case mktemp env (files w1) of
                    Inl m \<Rightarrow> (Inl (OtherException m), cleanup env None w1)
                  | Inr name \<Rightarrow>
                      (let tmp = name @ ''.wav'';
                           w2 = w1\<lparr>files := (files w1)(tmp \<mapsto> [])\<rparr>
                       in case transpose_steps env inp out_path overwrite semitones tmp w2 of
                            (r, w3) \<Rightarrow> (r, cleanup env (Some tmp) w3))))"

subsection \<open>The outer \<open>try\<close> (lines 47 to 113)\<close>

definition wrote_text :: "string \<Rightarrow> int option \<Rightarrow> string" where
  "wrote_text out_path semitones =
     (let msg = ''Wrote: '' @ out_path
      in case semitones of
           None \<Rightarrow> msg
         | Some n \<Rightarrow> msg @ '' (transpose: '' @ format_plus_d n @ '' semitones)'')"

text \<open>
  \<^verbatim>\<open>
  stderr = getattr(e, 'stderr', None)
  if isinstance(stderr, bytes):
      stderr = stderr.decode('utf-8', errors='ignore')
  raise click.ClickException(f"ffmpeg error: {stderr}")
  \<close>
\<close>

definition stderr_text :: "'s env \<Rightarrow> stderr_attr \<Rightarrow> string" where
  "stderr_text env se = (case se of StderrBytes b \<Rightarrow> decode_ignore env b | StderrOther s \<Rightarrow> s)"

definition ffmpeg_error_text :: "'s env \<Rightarrow> stderr_attr \<Rightarrow> string" where
  "ffmpeg_error_text env se = ''ffmpeg error: '' @ stderr_text env se"

text \<open>
  The outer \<open>try\<close>: the pipeline, the line printed on success, and the handlers
  in their order: \<open>ffmpeg.Error\<close>,
  \<open>click.ClickException\<close> (raised again as it is), then \<open>Exception\<close>, which
  wraps the \<open>str\<close> of what it caught (empty for an \<open>Abort\<close>).
\<close>

text \<open>The branch on \<open>semitones is None\<close> (lines 49 and 58).\<close>

definition pipeline ::
  "'s env \<Rightarrow> string \<Rightarrow> string \<Rightarrow> bool \<Rightarrow> int option \<Rightarrow> world \<Rightarrow> (exn + unit) \<times> world" where
  "pipeline env inp out_path overwrite semitones w =
     (case semitones of
        None \<Rightarrow> direct_path env inp out_path overwrite w
      | Some n \<Rightarrow> transpose_path env inp out_path overwrite n w)"

definition process ::
  "'s env \<Rightarrow> string \<Rightarrow> string \<Rightarrow> bool \<Rightarrow> int option \<Rightarrow> world \<Rightarrow> (exn + unit) \<times> world" where
  "process env inp out_path overwrite semitones w =
     (case pipeline env inp out_path overwrite semitones w of
        (Inr u, w1) \<Rightarrow> (Inr (), emit (Echo (wrote_text out_path semitones)) w1)
      | (Inl (FfmpegError se), w1) \<Rightarrow> (Inl (ClickException (ffmpeg_error_text env se)), w1)
      | (Inl (ClickException m), w1) \<Rightarrow> (Inl (ClickException m), w1)
      | (Inl (OtherException m), w1) \<Rightarrow>
          (Inl (ClickException (''Failed processing file: '' @ m)), w1)
      | (Inl Abort, w1) \<Rightarrow> (Inl (ClickException ''Failed processing file: ''), w1))"

subsection \<open>\<open>main\<close>\<close>

text \<open>
  \<open>out_path = output or _default_output_path(filepath)\<close>: an empty \<open>output\<close> is
  falsy, as \<open>None\<close> is.
\<close>

definition resolve_out_path :: "args \<Rightarrow> string" where
  "resolve_out_path a =
     (case output_arg a of
        None \<Rightarrow> default_output_path (filepath a)
      | Some s \<Rightarrow> if s \<noteq> [] then s else default_output_path (filepath a))"

definition main :: "'s env \<Rightarrow> args \<Rightarrow> fs \<Rightarrow> (exn + unit) \<times> world" where
  "main env a fs0 =
     (let out_path = resolve_out_path a;
          w = \<lparr>files = fs0, log = []\<rparr>
      in case overwrite_guard env out_path (yes a) w of
           (Inl e, w1) \<Rightarrow> (Inl e, w1)
         | (Inr overwrite, w1) \<Rightarrow>
             (let semitones = (case transpose_arg a of Some n \<Rightarrow> Some n | None \<Rightarrow> None)
              in process env (filepath a) out_path overwrite semitones w1))"

text \<open>
  How click's standalone mode ends the process: status 0 when \<open>main\<close> returns, 1 for
  \<open>Abort\<close>, and the \<open>exit_code\<close> of a \<open>ClickException\<close>, which is 1. No other
  exception leaves \<open>main\<close>.
\<close>

definition exit_code :: "exn + unit \<Rightarrow> int" where
  "exit_code r = (case r of Inr u \<Rightarrow> 0 | Inl e \<Rightarrow> 1)"


section \<open>Notions used in the statements\<close>

text \<open>
  The spec's description of the default output path: the filename without its directory
  (what follows the last \<open>/\<close>) and without its extension (what starts at the last
  \<open>.\<close>, unless only dots precede that dot, as in \<open>.bashrc\<close>).
\<close>

definition strip_directory :: "string \<Rightarrow> string" where
  "strip_directory p = rev (takeWhile (\<lambda>c. c \<noteq> CHR ''/'') (rev p))"

definition strip_extension :: "string \<Rightarrow> string" where
  "strip_extension name =
     (let ext = rev (takeWhile (\<lambda>c. c \<noteq> CHR ''.'') (rev name));
          stem = take (length name - Suc (length ext)) name
      in if CHR ''.'' \<in> set name \<and> dropWhile (\<lambda>c. c = CHR ''.'') stem \<noteq> [] then stem else name)"

text \<open>
  The overwrite guard lets a run through when there is nothing at the output path, when
  \<open>--yes\<close> was given, or when the user answers yes at the prompt.
\<close>

definition guard_lets_through :: "'s env \<Rightarrow> args \<Rightarrow> fs \<Rightarrow> bool" where
  "guard_lets_through env a fs0 =
     (fs0 (resolve_out_path a) = None \<or> yes a
      \<or> confirm_answer env (prompt_text (resolve_out_path a)) = Yes)"

fun is_transcode :: "event \<Rightarrow> bool" where
  "is_transcode (Transcode i d ov) = True"
| "is_transcode e = False"

text \<open>What a run of ffmpeg left at its destination.\<close>

fun left_at_destination :: "run_result \<Rightarrow> bytes option" where
  "left_at_destination (RunOk left) = left"
| "left_at_destination (RunError se left) = left"
| "left_at_destination (RunOther m) = None"



text \<open>
  The transcode step of an invocation (the one to the output path on the direct path, the
  one to the temporary file on the transpose path) ends with \<open>ffmpeg.Error\<close>, whose
  \<open>stderr\<close> is \<open>se\<close>.
\<close>

definition transcode_fails :: "'s env \<Rightarrow> args \<Rightarrow> fs \<Rightarrow> stderr_attr \<Rightarrow> bool" where
  "transcode_fails env a fs0 se =
     (case transpose_arg a of
        None \<Rightarrow>
          (case ffmpeg_run env (filepath a) (resolve_out_path a)
                  (yes a \<or> fs0 (resolve_out_path a) \<noteq> None) fs0 of
             RunError se' left \<Rightarrow> se' = se
           | RunOk c \<Rightarrow> False
           | RunOther m \<Rightarrow> False)
      | Some n \<Rightarrow>
          deps_available env \<and>
          (case mktemp env fs0 of
             Inl m \<Rightarrow> False
           | Inr name \<Rightarrow>
               (case ffmpeg_run env (filepath a) (name @ ''.wav'') True
                       (fs0(name @ ''.wav'' \<mapsto> [])) of
                  RunError se' left \<Rightarrow> se' = se
                | RunOk c \<Rightarrow> False
                | RunOther m \<Rightarrow> False)))"

text \<open>
  An environment for the examples: the user declines, every collaborator works, and the
  decoder is the UTF-8 decoder where it is fed ASCII bytes.
\<close>

definition ascii_decode :: "bytes \<Rightarrow> string" where
  "ascii_decode bs = map (\<lambda>b. char_of (unat b)) (filter (\<lambda>b. b < 128) bs)"


text \<open>
  Two ways ffmpeg may treat a destination that exists when it is run without
  \<open>overwrite_output\<close>: it exits with an error, or it exits normally; in both it
  leaves the destination as it was. Otherwise it writes the destination.
\<close>

definition refusing_ffmpeg :: "string \<Rightarrow> string \<Rightarrow> bool \<Rightarrow> fs \<Rightarrow> run_result" where
  "refusing_ffmpeg inp dest allow fs0 =
     (if \<not> allow \<and> fs0 dest \<noteq> None then RunError (StderrBytes [102, 97, 105, 108]) None
      else RunOk (Some [82, 73, 70, 70]))"

definition silent_ffmpeg :: "string \<Rightarrow> string \<Rightarrow> bool \<Rightarrow> fs \<Rightarrow> run_result" where
  "silent_ffmpeg inp dest allow fs0 =
     (if \<not> allow \<and> fs0 dest \<noteq> None then RunOk None else RunOk (Some [82, 73, 70, 70]))"

definition example_env :: "int list env" where
  "example_env =
     \<lparr>confirm_answer = (\<lambda>q. No),
      deps_available = True,
      mktemp = (\<lambda>f. Inr ''/tmp/tmpab12''),
      ffmpeg_run = (\<lambda>i d ov f. RunOk (Some [82, 73, 70, 70])),
      librosa_load = (\<lambda>p f. Inr ([0, 1, 0, - 1], 44100)),
      pitch_shift = (\<lambda>y n sr. Inr (rev y)),
      sf_write = (\<lambda>p y sr. Inr [82, 73, 70, 70, 1]),
      remove_fails = (\<lambda>p. False),
      decode_ignore = ascii_decode\<rparr>"

section \<open>The default output path\<close>

lemma rfind_last: "c \<notin> set ys \<Longrightarrow> rfind (xs @ c # ys) c = int (length xs)"
proof -
  assume a: "c \<notin> set ys"
  have tw: "takeWhile (\<lambda>x. x \<noteq> c) (rev ys @ c # rev xs) = rev ys"
    using a by (auto simp: takeWhile_tail)
  show ?thesis by (simp add: rfind_def tw)
qed

lemma rfind_absent: "c \<notin> set p \<Longrightarrow> rfind p c = - 1"
  by (simp add: rfind_def)

lemma basename_strip_directory: "basename p = strip_directory p"
proof (cases "CHR ''/'' \<in> set p")
  case True
  then obtain xs ys where p: "p = xs @ CHR ''/'' # ys" and ys: "CHR ''/'' \<notin> set ys"
    by (meson split_list_last)
  have tw: "takeWhile (\<lambda>c. c \<noteq> CHR ''/'') (rev ys @ CHR ''/'' # rev xs) = rev ys"
    using ys by (auto simp: takeWhile_tail)
  have suc: "nat (int (length xs) + 1) = Suc (length xs)" by simp
  show ?thesis
    using ys by (simp add: p basename_def strip_directory_def rfind_last tw suc)
next
  case False
  then have tw: "takeWhile (\<lambda>c. c \<noteq> CHR ''/'') (rev p) = rev p"
    by (auto simp: takeWhile_eq_all_conv)
  show ?thesis
    using False by (simp add: basename_def strip_directory_def rfind_absent tw)
qed

lemma strip_directory_no_sep: "CHR ''/'' \<notin> set (strip_directory p)"
  using set_takeWhileD [of "CHR ''/''" "\<lambda>c. c \<noteq> CHR ''/''" "rev p"]
  by (auto simp: strip_directory_def)

lemma splitext_loop_eq:
  "d \<le> length p \<Longrightarrow>
   splitext_loop p i d =
     (if \<exists>j. i \<le> j \<and> j < d \<and> p ! j \<noteq> CHR ''.'' then Some (take d p, drop d p) else None)"
proof (induction p i d rule: splitext_loop.induct)
  case (1 p i d)
  show ?case
  proof (cases "i < d")
    case False
    then show ?thesis by (simp add: splitext_loop.simps [of p i d])
  next
    case True
    then have il: "i < length p" using "1.prems" by simp
    then have hd: "take 1 (drop i p) = [p ! i]"
      by (metis Cons_nth_drop_Suc take_Suc_Cons take_0 One_nat_def)
    show ?thesis
    proof (cases "p ! i = CHR ''.''")
      case False
      then show ?thesis
        using True hd by (auto simp: splitext_loop.simps [of p i d])
    next
      case dot: True
      have "(\<exists>j. i \<le> j \<and> j < d \<and> p ! j \<noteq> CHR ''.'') = (\<exists>j. Suc i \<le> j \<and> j < d \<and> p ! j \<noteq> CHR ''.'')"
        using dot by (metis Suc_leI le_neq_implies_less Suc_leD)
      then show ?thesis
        using True hd dot "1.IH" "1.prems" by (simp add: splitext_loop.simps [of p i d])
    qed
  qed
qed

lemma all_dots_conv:
  "(dropWhile (\<lambda>c. c = CHR ''.'') xs \<noteq> []) = (\<exists>j<length xs. xs ! j \<noteq> CHR ''.'')"
  by (simp add: dropWhile_eq_Nil_conv all_set_conv_all_nth)

lemma splitext_strip_extension:
  assumes "CHR ''/'' \<notin> set n"
  shows "fst (splitext n) = strip_extension n"
proof (cases "CHR ''.'' \<in> set n")
  case False
  then show ?thesis
    using assms by (simp add: splitext_def strip_extension_def rfind_absent)
next
  case True
  then obtain xs ys where n: "n = xs @ CHR ''.'' # ys" and ys: "CHR ''.'' \<notin> set ys"
    by (meson split_list_last)
  have tw: "takeWhile (\<lambda>c. c \<noteq> CHR ''.'') (rev ys @ CHR ''.'' # rev xs) = rev ys"
    using ys by (auto simp: takeWhile_tail)
  have nth: "(\<exists>j. j < length xs \<and> n ! j \<noteq> CHR ''.'') = (\<exists>j<length xs. xs ! j \<noteq> CHR ''.'')"
    by (auto simp: n nth_append)
  have loop: "splitext_loop n 0 (length xs) =
      (if \<exists>j<length xs. xs ! j \<noteq> CHR ''.'' then Some (xs, CHR ''.'' # ys) else None)"
    using splitext_loop_eq [of "length xs" n 0] nth by (simp add: n)
  have sep: "rfind n (CHR ''/'') = - 1" using assms by (rule rfind_absent)
  have dot: "rfind n (CHR ''.'') = int (length xs)" using ys by (simp add: n rfind_last)
  have "fst (splitext n) = (if \<exists>j<length xs. xs ! j \<noteq> CHR ''.'' then xs else n)"
    by (auto simp: splitext_def sep dot loop)
  moreover have "strip_extension n = (if \<exists>j<length xs. xs ! j \<noteq> CHR ''.'' then xs else n)"
    by (simp add: strip_extension_def n all_dots_conv tw del: dropWhile_eq_Nil_conv)
  ultimately show ?thesis by simp
qed

text \<open>
  C5. For every input path, the default output path is the input's filename with the
  directory and the extension stripped, followed by \<open>.wav\<close>; it names no directory,
  so it is relative to the current working directory.
\<close>

theorem default_output_path_strips:
  "default_output_path p = strip_extension (strip_directory p) @ ''.wav''
   \<and> CHR ''/'' \<notin> set (default_output_path p)"
proof -
  have eq: "default_output_path p = strip_extension (strip_directory p) @ ''.wav''"
    using splitext_strip_extension [OF strip_directory_no_sep, of p]
    by (auto simp: default_output_path_def basename_strip_directory split: prod.splits)
  have "set (strip_extension n) \<subseteq> set n" for n
    by (auto simp: strip_extension_def Let_def dest: in_set_takeD)
  then have "CHR ''/'' \<notin> set (strip_extension (strip_directory p))"
    using strip_directory_no_sep [of p] by blast
  then show ?thesis using eq by simp
qed

text \<open>The spec's example: \<open>/a/b/song.mp3\<close> yields \<open>song.wav\<close>.\<close>

theorem default_output_path_song:
  "default_output_path ''/a/b/song.mp3'' = ''song.wav''"
  using default_output_path_strips [of "''/a/b/song.mp3''"]
  by (simp add: strip_extension_def strip_directory_def)

section \<open>The overwrite guard\<close>

lemma files_emit [simp]: "files (emit e w) = files w"
  by (simp add: emit_def)

lemma log_emit [simp]: "log (emit e w) = log w @ [e]"
  by (simp add: emit_def)

lemma path_exists_emit [simp]: "path_exists p (emit e w) = path_exists p w"
  by (simp add: path_exists_def)

lemma guard_through:
  "guard_lets_through env a fs0 \<Longrightarrow>
   overwrite_guard env (resolve_out_path a) (yes a) \<lparr>files = fs0, log = []\<rparr> =
     (Inr (yes a \<or> fs0 (resolve_out_path a) \<noteq> None),
      \<lparr>files = fs0,
         log = (if fs0 (resolve_out_path a) \<noteq> None \<and> \<not> yes a
                then [Confirm (prompt_text (resolve_out_path a))] else [])\<rparr>)"
  by (auto simp: guard_lets_through_def overwrite_guard_def path_exists_def emit_def
           split: answer.splits)

lemma guard_blocked:
  "\<not> guard_lets_through env a fs0 \<Longrightarrow>
   overwrite_guard env (resolve_out_path a) (yes a) \<lparr>files = fs0, log = []\<rparr> =
     (Inl Abort,
      \<lparr>files = fs0,
         log = Confirm (prompt_text (resolve_out_path a))
               # (if confirm_answer env (prompt_text (resolve_out_path a)) = No
                  then [Echo aborted_text] else [])\<rparr>)"
  by (cases "confirm_answer env (prompt_text (resolve_out_path a))")
     (auto simp: guard_lets_through_def overwrite_guard_def path_exists_def emit_def)

lemma main_through:
  "guard_lets_through env a fs0 \<Longrightarrow>
   main env a fs0 =
     process env (filepath a) (resolve_out_path a)
       (yes a \<or> fs0 (resolve_out_path a) \<noteq> None) (transpose_arg a)
       \<lparr>files = fs0,
          log = (if fs0 (resolve_out_path a) \<noteq> None \<and> \<not> yes a
                 then [Confirm (prompt_text (resolve_out_path a))] else [])\<rparr>"
  by (cases "transpose_arg a") (simp_all add: main_def Let_def guard_through)

lemma main_blocked:
  "\<not> guard_lets_through env a fs0 \<Longrightarrow>
   main env a fs0 =
     (Inl Abort,
      \<lparr>files = fs0,
         log = Confirm (prompt_text (resolve_out_path a))
               # (if confirm_answer env (prompt_text (resolve_out_path a)) = No
                  then [Echo aborted_text] else [])\<rparr>)"
  by (simp add: main_def Let_def guard_blocked)

text \<open>
  C1. When the resolved output path exists, \<open>--yes\<close> is not given and the user
  declines at the prompt, the run ends with \<open>Abort\<close> and a non-zero exit status, the
  filesystem is as it was, and the only things done are the prompt and the line reporting
  the abort.
\<close>

theorem declined_overwrite_aborts:
  assumes "fs0 (resolve_out_path a) \<noteq> None"
    and "\<not> yes a"
    and "confirm_answer env (prompt_text (resolve_out_path a)) = No"
  shows "fst (main env a fs0) = Inl Abort
       \<and> exit_code (fst (main env a fs0)) \<noteq> 0
       \<and> files (snd (main env a fs0)) = fs0
       \<and> log (snd (main env a fs0)) =
           [Confirm (prompt_text (resolve_out_path a)), Echo aborted_text]"
proof -
  have "\<not> guard_lets_through env a fs0"
    using assms by (simp add: guard_lets_through_def)
  from main_blocked [OF this] show ?thesis
    using assms(3) by (simp add: exit_code_def)
qed

text \<open>The third end-to-end scenario of the spec: \<open>out.wav\<close> exists and stays unchanged.\<close>

theorem declined_overwrite_aborts_witness:
  "fst (main example_env
          \<lparr>filepath = ''input.mp4'', output_arg = Some ''out.wav'', transpose_arg = None, yes = False\<rparr>
          [''out.wav'' \<mapsto> [1, 2, 3]]) = Inl Abort
   \<and> files (snd (main example_env
          \<lparr>filepath = ''input.mp4'', output_arg = Some ''out.wav'', transpose_arg = None, yes = False\<rparr>
          [''out.wav'' \<mapsto> [1, 2, 3]])) = [''out.wav'' \<mapsto> [1, 2, 3]]"
  using declined_overwrite_aborts [of "[''out.wav'' \<mapsto> [1, 2, 3]]"
      "\<lparr>filepath = ''input.mp4'', output_arg = Some ''out.wav'', transpose_arg = None, yes = False\<rparr>"
      example_env]
  by (simp add: resolve_out_path_def example_env_def)

section \<open>Failure of the transcode step\<close>

lemma ascii_decode_two_lines: "ascii_decode [97, 10, 98] = [CHR ''a'', CHR 0x0A, CHR ''b'']"
  by code_simp

lemma ascii_decode_fail: "ascii_decode [102, 97, 105, 108] = ''fail''"
  by code_simp

section \<open>Missing optional dependencies\<close>

lemma default_output_path_input_mp4: "default_output_path ''input.mp4'' = ''input.wav''"
  by (simp add: default_output_path_def splitext_def basename_def rfind_def splitext_loop.simps)

lemma process_missing_deps:
  "\<not> deps_available env \<Longrightarrow>
   process env inp out ov (Some n) w = (Inl (ClickException missing_deps_text), emit ImportDeps w)"
  by (simp add: process_def pipeline_def transpose_path_def)

text \<open>
  C2, amended. When a transposition is requested and the optional dependencies cannot be
  imported, the filesystem is as it was and the run does nothing but, possibly, the
  overwrite prompt, the abort line and the import attempt: no transcode, no temporary
  file, no write. The run fails with the missing-dependencies error and a non-zero exit
  status when the overwrite guard lets it through; when the guard stops it, it ends with
  \<open>Abort\<close> before the import is tried.
\<close>

theorem missing_deps_no_file_io:
  assumes "transpose_arg a = Some n" and "\<not> deps_available env"
  shows "files (snd (main env a fs0)) = fs0
       \<and> set (log (snd (main env a fs0)))
           \<subseteq> {Confirm (prompt_text (resolve_out_path a)), Echo aborted_text, ImportDeps}
       \<and> (guard_lets_through env a fs0 \<longrightarrow>
             fst (main env a fs0) = Inl (ClickException missing_deps_text)
             \<and> exit_code (fst (main env a fs0)) \<noteq> 0)
       \<and> (\<not> guard_lets_through env a fs0 \<longrightarrow>
             fst (main env a fs0) = Inl Abort
             \<and> ImportDeps \<notin> set (log (snd (main env a fs0))))"
proof (cases "guard_lets_through env a fs0")
  case True
  from main_through [OF this] show ?thesis
    using assms True by (auto simp: process_missing_deps exit_code_def)
next
  case False
  from main_blocked [OF this] show ?thesis
    using False by auto
qed

theorem missing_deps_no_file_io_witness:
  "fst (main (example_env\<lparr>deps_available := False\<rparr>)
     \<lparr>filepath = ''input.mp4'', output_arg = None, transpose_arg = Some (- 2), yes = True\<rparr>
     [''input.wav'' \<mapsto> [1]]) = Inl (ClickException missing_deps_text)
   \<and> files (snd (main (example_env\<lparr>deps_available := False\<rparr>)
     \<lparr>filepath = ''input.mp4'', output_arg = None, transpose_arg = Some (- 2), yes = True\<rparr>
     [''input.wav'' \<mapsto> [1]])) = [''input.wav'' \<mapsto> [1]]"
  using missing_deps_no_file_io [of
      "\<lparr>filepath = ''input.mp4'', output_arg = None, transpose_arg = Some (- 2), yes = True\<rparr>"
      "- 2" "example_env\<lparr>deps_available := False\<rparr>" "[''input.wav'' \<mapsto> [1]]"]
  by (simp add: example_env_def guard_lets_through_def)

text \<open>
  C2 as stated fails: with a transposition requested and the dependencies missing, an
  existing output path and a declining user end the run with \<open>Abort\<close>, not with
  the missing-dependencies error.
\<close>

theorem missing_deps_counterexample:
  "transpose_arg \<lparr>filepath = ''input.mp4'', output_arg = None, transpose_arg = Some 3, yes = False\<rparr>
     = Some 3
   \<and> \<not> deps_available (example_env\<lparr>deps_available := False\<rparr>)
   \<and> fst (main (example_env\<lparr>deps_available := False\<rparr>)
        \<lparr>filepath = ''input.mp4'', output_arg = None, transpose_arg = Some 3, yes = False\<rparr>
        [''input.wav'' \<mapsto> [1]]) = Inl Abort
   \<and> fst (main (example_env\<lparr>deps_available := False\<rparr>)
        \<lparr>filepath = ''input.mp4'', output_arg = None, transpose_arg = Some 3, yes = False\<rparr>
        [''input.wav'' \<mapsto> [1]]) \<noteq> Inl (ClickException missing_deps_text)"
  by (simp add: example_env_def main_def overwrite_guard_def path_exists_def emit_def
        resolve_out_path_def default_output_path_input_mp4 Let_def)

section \<open>The temporary file\<close>

lemma cleanup_removes:
  "t \<noteq> [] \<Longrightarrow> \<not> remove_fails env t \<Longrightarrow> files (cleanup env (Some t) w) t = None"
  by (auto simp: cleanup_def os_remove_def path_exists_def Let_def)

lemma transpose_path_temp_removed:
  assumes "deps_available env" and "mktemp env (files w) = Inr name"
    and "\<not> remove_fails env (name @ ''.wav'')"
  shows "files (snd (transpose_path env inp out ov n w)) (name @ ''.wav'') = None"
  using assms by (simp add: transpose_path_def Let_def cleanup_removes split: prod.splits)

text \<open>
  C3, amended. For every transpose-path run that allocated a temporary file, whether the
  run succeeds or fails at any later step, the temporary file does not exist afterwards,
  provided that the \<open>os.remove\<close> of the \<open>finally\<close> clause does not itself fail
  on it.
\<close>

theorem temp_file_removed:
  assumes "transpose_arg a = Some n"
    and "guard_lets_through env a fs0"
    and "deps_available env"
    and "mktemp env fs0 = Inr name"
    and "\<not> remove_fails env (name @ ''.wav'')"
  shows "files (snd (main env a fs0)) (name @ ''.wav'') = None"
proof -
  let ?w = "\<lparr>files = fs0,
              log = (if fs0 (resolve_out_path a) \<noteq> None \<and> \<not> yes a
                     then [Confirm (prompt_text (resolve_out_path a))] else [])\<rparr>"
  let ?ov = "yes a \<or> fs0 (resolve_out_path a) \<noteq> None"
  have "files (snd (transpose_path env (filepath a) (resolve_out_path a) ?ov n ?w))
          (name @ ''.wav'') = None"
    using assms(3-5) by (intro transpose_path_temp_removed) simp_all
  then have "files (snd (process env (filepath a) (resolve_out_path a) ?ov (Some n) ?w))
          (name @ ''.wav'') = None"
    by (auto simp: process_def pipeline_def split: prod.splits sum.splits exn.splits)
  then show ?thesis
    using assms(1) by (simp add: main_through [OF assms(2)])
qed

theorem temp_file_removed_witness:
  "files (snd (main (example_env\<lparr>ffmpeg_run := (\<lambda>i d ov f. RunError (StderrBytes [102, 97, 105, 108]) (Some [82]))\<rparr>)
     \<lparr>filepath = ''input.mp4'', output_arg = None, transpose_arg = Some 3, yes = False\<rparr>
     Map.empty)) ''/tmp/tmpab12.wav'' = None"
  using temp_file_removed [of
      "\<lparr>filepath = ''input.mp4'', output_arg = None, transpose_arg = Some 3, yes = False\<rparr>"
      3 "example_env\<lparr>ffmpeg_run := (\<lambda>i d ov f. RunError (StderrBytes [102, 97, 105, 108]) (Some [82]))\<rparr>"
      Map.empty "''/tmp/tmpab12''"]
  by (simp add: example_env_def guard_lets_through_def)

text \<open>
  C3 as stated fails: the \<open>finally\<close> clause swallows a failing \<open>os.remove\<close>, and
  then the temporary file that the run allocated is still there.
\<close>

theorem temp_file_left_counterexample:
  "MkTemp \<in> set (log (snd (main (example_env\<lparr>remove_fails := (\<lambda>p. True)\<rparr>)
     \<lparr>filepath = ''input.mp4'', output_arg = None, transpose_arg = Some 3, yes = False\<rparr>
     Map.empty)))
   \<and> files (snd (main (example_env\<lparr>remove_fails := (\<lambda>p. True)\<rparr>)
     \<lparr>filepath = ''input.mp4'', output_arg = None, transpose_arg = Some 3, yes = False\<rparr>
     Map.empty)) ''/tmp/tmpab12.wav'' = Some [82, 73, 70, 70]"
  by (simp add: example_env_def main_def overwrite_guard_def path_exists_def emit_def
        resolve_out_path_def default_output_path_input_mp4 Let_def process_def pipeline_def
        transpose_path_def transpose_steps_def run_ffmpeg_def write_output_def cleanup_def
        os_remove_def)

section \<open>The write of the shifted samples\<close>



section \<open>What a run does, in order\<close>


lemma run_ffmpeg_log [simp]:
  "log (snd (run_ffmpeg env i d ov w)) = log w @ [Transcode i d ov]"
  by (simp add: run_ffmpeg_def Let_def split: run_result.splits option.splits)

lemma os_remove_log [simp]: "log (snd (os_remove env p w)) = log w @ [Remove p]"
  by (simp add: os_remove_def Let_def)

lemma write_output_log:
  "\<exists>evs. log (snd (write_output env out ov y sr w)) = log w @ evs
         \<and> set evs \<subseteq> {Remove out, SfWrite out}"
  by (auto simp: write_output_def Let_def split: sum.splits)

lemma run_ffmpeg_logD:
  "run_ffmpeg env i d ov w = (r, w1) \<Longrightarrow> log w1 = log w @ [Transcode i d ov]"
  using run_ffmpeg_log [of env i d ov w] by simp

lemma transpose_steps_log:
  "\<exists>evs. log (snd (transpose_steps env inp out ov n t w)) = log w @ Transcode inp t True # evs
         \<and> set evs \<subseteq> {Load t, PitchShift n, Remove out, SfWrite out}"
  by (auto simp: transpose_steps_def write_output_def Let_def
           split: prod.splits sum.splits dest!: run_ffmpeg_logD)

lemma cleanup_log:
  "\<exists>evs. log (cleanup env (Some t) w) = log w @ evs \<and> set evs \<subseteq> {Remove t}"
  by (auto simp: cleanup_def)

lemma transpose_path_log:
  "\<exists>evs. log (snd (transpose_path env inp out ov n w)) = log w @ ImportDeps # evs
         \<and> (\<forall>e\<in>set evs. e = MkTemp \<or>
               (\<exists>name. mktemp env (files w) = Inr name \<and>
                  e \<in> {Transcode inp (name @ ''.wav'') True, Load (name @ ''.wav''),
                        PitchShift n, Remove out, SfWrite out, Remove (name @ ''.wav'')}))"
proof (cases "deps_available env")
  case False
  then show ?thesis by (simp add: transpose_path_def)
next
  case True
  show ?thesis
  proof (cases "mktemp env (files w)")
    case (Inl m)
    then show ?thesis using True by (simp add: transpose_path_def Let_def cleanup_def)
  next
    case (Inr name)
    let ?t = "name @ ''.wav''"
    let ?w2 = "(emit MkTemp (emit ImportDeps w))\<lparr>files := (files w)(?t \<mapsto> [])\<rparr>"
    obtain r w3 where st: "transpose_steps env inp out ov n ?t ?w2 = (r, w3)"
      by (cases "transpose_steps env inp out ov n ?t ?w2")
    obtain evs where evs: "log w3 = log ?w2 @ Transcode inp ?t True # evs"
      "set evs \<subseteq> {Load ?t, PitchShift n, Remove out, SfWrite out}"
      using transpose_steps_log [of env inp out ov n ?t ?w2] st by auto
    obtain evs' where evs': "log (cleanup env (Some ?t) w3) = log w3 @ evs'"
      "set evs' \<subseteq> {Remove ?t}"
      using cleanup_log by blast
    have "log (snd (transpose_path env inp out ov n w))
            = log w @ ImportDeps # ([MkTemp, Transcode inp ?t True] @ evs @ evs')"
      using True Inr st evs(1) evs'(1) by (simp add: transpose_path_def Let_def)
    moreover have "\<forall>e\<in>set ([MkTemp, Transcode inp ?t True] @ evs @ evs'). e = MkTemp \<or>
               (\<exists>name. mktemp env (files w) = Inr name \<and>
                  e \<in> {Transcode inp (name @ ''.wav'') True, Load (name @ ''.wav''),
                        PitchShift n, Remove out, SfWrite out, Remove (name @ ''.wav'')})"
      using evs(2) evs'(2) Inr by auto
    ultimately show ?thesis by blast
  qed
qed


lemma process_log:
  "log (snd (process env inp out ov sem w)) =
     log (snd (pipeline env inp out ov sem w))
     @ (if fst (pipeline env inp out ov sem w) = Inr () then [Echo (wrote_text out sem)] else [])"
  by (auto simp: process_def split: prod.splits sum.splits exn.splits)

lemma pipeline_direct_log:
  "log (snd (pipeline env inp out ov None w)) = log w @ [Transcode inp out ov]"
  by (simp add: pipeline_def direct_path_def)

lemma pipeline_transpose_log:
  "\<exists>evs. log (snd (pipeline env inp out ov (Some n) w)) = log w @ ImportDeps # evs
         \<and> (\<forall>e\<in>set evs. e = MkTemp \<or>
               (\<exists>name. mktemp env (files w) = Inr name \<and>
                  e \<in> {Transcode inp (name @ ''.wav'') True, Load (name @ ''.wav''),
                        PitchShift n, Remove out, SfWrite out, Remove (name @ ''.wav'')}))"
  using transpose_path_log [of env inp out ov n w] by (simp add: pipeline_def)



lemma format_plus_d_examples:
  "format_plus_d 3 = ''+3''" "format_plus_d (- 12) = ''-12''" "format_plus_d 0 = ''+0''"
  by (simp_all add: format_plus_d_def decimal.simps digit_char_def)


lemmas run_defs = main_def overwrite_guard_def path_exists_def emit_def
  resolve_out_path_def default_output_path_input_mp4 Let_def process_def pipeline_def
  direct_path_def transpose_path_def transpose_steps_def run_ffmpeg_def write_output_def
  cleanup_def os_remove_def


theorem overwrite_prompt_precedes_import:
  assumes "transpose_arg a = Some n"
    and "fs0 (resolve_out_path a) \<noteq> None"
    and "\<not> yes a"
  shows "\<exists>rest. log (snd (main env a fs0)) = Confirm (prompt_text (resolve_out_path a)) # rest
       \<and> ((ImportDeps \<in> set rest) = (confirm_answer env (prompt_text (resolve_out_path a)) = Yes))
       \<and> (confirm_answer env (prompt_text (resolve_out_path a)) \<noteq> Yes \<longrightarrow>
            fst (main env a fs0) = Inl Abort)"
proof (cases "guard_lets_through env a fs0")
  case False
  then have "confirm_answer env (prompt_text (resolve_out_path a)) \<noteq> Yes"
    by (simp add: guard_lets_through_def)
  then show ?thesis by (simp add: main_blocked [OF False])
next
  case True
  then have yes: "confirm_answer env (prompt_text (resolve_out_path a)) = Yes"
    using assms by (simp add: guard_lets_through_def)
  let ?w = "\<lparr>files = fs0,
              log = (if fs0 (resolve_out_path a) \<noteq> None \<and> \<not> yes a
                     then [Confirm (prompt_text (resolve_out_path a))] else [])\<rparr>"
  let ?ov = "yes a \<or> fs0 (resolve_out_path a) \<noteq> None"
  obtain evs where evs:
    "log (snd (pipeline env (filepath a) (resolve_out_path a) ?ov (Some n) ?w))
       = log ?w @ ImportDeps # evs"
    using pipeline_transpose_log by blast
  have m: "main env a fs0 = process env (filepath a) (resolve_out_path a) ?ov (transpose_arg a) ?w"
    by (rule main_through [OF True])
  have "log (snd (main env a fs0)) =
      (log ?w @ ImportDeps # evs)
      @ (if fst (pipeline env (filepath a) (resolve_out_path a) ?ov (Some n) ?w) = Inr ()
         then [Echo (wrote_text (resolve_out_path a) (Some n))] else [])"
    by (simp only: m assms(1) process_log evs)
  then have "log (snd (main env a fs0)) =
      Confirm (prompt_text (resolve_out_path a)) # (ImportDeps # evs
      @ (if fst (pipeline env (filepath a) (resolve_out_path a) ?ov (Some n) ?w) = Inr ()
         then [Echo (wrote_text (resolve_out_path a) (Some n))] else []))"
    using assms(2,3) by simp
  then show ?thesis using yes by auto
qed

theorem overwrite_prompt_precedes_import_witness:
  "\<exists>rest. log (snd (main (example_env\<lparr>deps_available := False\<rparr>)
      \<lparr>filepath = ''input.mp4'', output_arg = Some ''out.wav'', transpose_arg = Some 3, yes = False\<rparr>
      [''out.wav'' \<mapsto> [7]])) = Confirm (prompt_text ''out.wav'') # rest
     \<and> ImportDeps \<notin> set rest"
  using overwrite_prompt_precedes_import [of
      "\<lparr>filepath = ''input.mp4'', output_arg = Some ''out.wav'', transpose_arg = Some 3, yes = False\<rparr>"
      3 "[''out.wav'' \<mapsto> [7]]" "example_env\<lparr>deps_available := False\<rparr>"]
  by (auto simp: resolve_out_path_def example_env_def)

section \<open>The direct path\<close>

lemma process_direct_files:
  "files (snd (process env inp out ov None w)) =
     (case left_at_destination (ffmpeg_run env inp out ov (files w)) of
        None \<Rightarrow> files w
      | Some c \<Rightarrow> (files w)(out \<mapsto> c))"
  by (cases "ffmpeg_run env inp out ov (files w)")
     (auto simp: process_def pipeline_def direct_path_def run_ffmpeg_def Let_def
           split: option.splits)

lemma process_direct_result:
  "(fst (process env inp out ov None w) = Inr ())
     = (\<exists>left. ffmpeg_run env inp out ov (files w) = RunOk left)"
  by (cases "ffmpeg_run env inp out ov (files w)")
     (auto simp: process_def pipeline_def direct_path_def run_ffmpeg_def Let_def
           split: option.splits)

lemma process_direct_refused:
  "ffmpeg_run env inp out ov (files w) = RunError se None \<Longrightarrow>
   process env inp out ov None w =
     (Inl (ClickException (''ffmpeg error: '' @ stderr_text env se)),
      emit (Transcode inp out ov) w)"
  by (cases ov)
     (simp_all add: process_def pipeline_def direct_path_def run_ffmpeg_def Let_def
        ffmpeg_error_text_def)

text \<open>
  C4, amended. On the direct path there is exactly one run of ffmpeg, to the output path,
  and it is given \<open>overwrite_output\<close> exactly when \<open>--yes\<close> was given or the
  user confirmed at the prompt; when nothing was at the output path at guard time and
  \<open>--yes\<close> was not given, it runs without that permission. Run without permission,
  whatever the filesystem holds by then, the program itself writes and removes nothing:
  the files afterwards are those before, but for what ffmpeg left at the output path.
  When ffmpeg refuses with an error and leaves the output path as it was, the run fails
  with that error and a non-zero exit status, prints no success line and changes no file.
  The program adds no check of its own: the run succeeds exactly when ffmpeg returns
  normally.
\<close>

theorem direct_transcode_permission:
  assumes "transpose_arg a = None" and "guard_lets_through env a fs0"
  shows "filter is_transcode (log (snd (main env a fs0))) =
     [Transcode (filepath a) (resolve_out_path a)
        (yes a \<or> (fs0 (resolve_out_path a) \<noteq> None
                  \<and> confirm_answer env (prompt_text (resolve_out_path a)) = Yes))]
   \<and> (ffmpeg_run env inp out_path False (files w) = RunError se None \<longrightarrow>
        process env inp out_path False None w =
          (Inl (ClickException (''ffmpeg error: '' @ stderr_text env se)),
           emit (Transcode inp out_path False) w)
        \<and> exit_code (fst (process env inp out_path False None w)) \<noteq> 0)
   \<and> files (snd (process env inp out_path False None w)) =
        (case left_at_destination (ffmpeg_run env inp out_path False (files w)) of
           None \<Rightarrow> files w
         | Some c \<Rightarrow> (files w)(out_path \<mapsto> c))
   \<and> ((fst (process env inp out_path False None w) = Inr ())
        = (\<exists>left. ffmpeg_run env inp out_path False (files w) = RunOk left))
   \<and> (\<not> yes a \<and> fs0 (resolve_out_path a) = None
        \<and> ffmpeg_run env (filepath a) (resolve_out_path a) False fs0 = RunError se None \<longrightarrow>
        main env a fs0 =
          (Inl (ClickException (''ffmpeg error: '' @ stderr_text env se)),
           \<lparr>files = fs0, log = [Transcode (filepath a) (resolve_out_path a) False]\<rparr>))"
proof -
  have flag: "yes a \<or> fs0 (resolve_out_path a) \<noteq> None \<longleftrightarrow>
        yes a \<or> (fs0 (resolve_out_path a) \<noteq> None
                  \<and> confirm_answer env (prompt_text (resolve_out_path a)) = Yes)"
    using assms(2) by (auto simp: guard_lets_through_def)
  have 1: "filter is_transcode (log (snd (main env a fs0))) =
     [Transcode (filepath a) (resolve_out_path a)
        (yes a \<or> (fs0 (resolve_out_path a) \<noteq> None
                  \<and> confirm_answer env (prompt_text (resolve_out_path a)) = Yes))]"
    using assms(1) flag
    by (simp add: main_through [OF assms(2)] process_log pipeline_direct_log)
  have 2: "ffmpeg_run env inp out_path False (files w) = RunError se None \<longrightarrow>
        process env inp out_path False None w =
          (Inl (ClickException (''ffmpeg error: '' @ stderr_text env se)),
           emit (Transcode inp out_path False) w)
        \<and> exit_code (fst (process env inp out_path False None w)) \<noteq> 0"
    by (simp add: process_direct_refused exit_code_def)
  have 5: "\<not> yes a \<and> fs0 (resolve_out_path a) = None
        \<and> ffmpeg_run env (filepath a) (resolve_out_path a) False fs0 = RunError se None \<longrightarrow>
        main env a fs0 =
          (Inl (ClickException (''ffmpeg error: '' @ stderr_text env se)),
           \<lparr>files = fs0, log = [Transcode (filepath a) (resolve_out_path a) False]\<rparr>)"
    using assms(1)
    by (simp add: main_through [OF assms(2)] process_direct_refused emit_def)
  show ?thesis
    using 1 2 5 process_direct_files [of env inp out_path False w]
      process_direct_result [of env inp out_path False w]
    by blast
qed

theorem direct_transcode_permission_witness:
  "filter is_transcode (log (snd (main
      (example_env\<lparr>confirm_answer := (\<lambda>q. Yes), ffmpeg_run := refusing_ffmpeg\<rparr>)
      \<lparr>filepath = ''input.mp4'', output_arg = Some ''out.wav'', transpose_arg = None, yes = False\<rparr>
      [''out.wav'' \<mapsto> [7]])))
   = [Transcode ''input.mp4'' ''out.wav'' True]
   \<and> process (example_env\<lparr>confirm_answer := (\<lambda>q. Yes), ffmpeg_run := refusing_ffmpeg\<rparr>)
        ''input.mp4'' ''out.wav'' False None \<lparr>files = [''out.wav'' \<mapsto> [7]], log = []\<rparr>
     = (Inl (ClickException ''ffmpeg error: fail''),
        \<lparr>files = [''out.wav'' \<mapsto> [7]], log = [Transcode ''input.mp4'' ''out.wav'' False]\<rparr>)"
  using direct_transcode_permission [of
      "\<lparr>filepath = ''input.mp4'', output_arg = Some ''out.wav'', transpose_arg = None, yes = False\<rparr>"
      "example_env\<lparr>confirm_answer := (\<lambda>q. Yes), ffmpeg_run := refusing_ffmpeg\<rparr>"
      "[''out.wav'' \<mapsto> [7]]" "''input.mp4''" "''out.wav''"
      "\<lparr>files = [''out.wav'' \<mapsto> [7]], log = []\<rparr>" "StderrBytes [102, 97, 105, 108]"]
  by (simp add: guard_lets_through_def resolve_out_path_def example_env_def refusing_ffmpeg_def
        stderr_text_def ascii_decode_fail emit_def)

text \<open>
  C4 as stated fails twice. With no file at the output path and no \<open>--yes\<close>,
  ffmpeg runs without \<open>overwrite_output\<close>. And run without it on a path that
  holds a file by then, an ffmpeg that exits normally without writing makes the run
  report success: the file is not replaced, but the run does not fail.
\<close>

theorem direct_transcode_permission_counterexample:
  "Map.empty (resolve_out_path
      \<lparr>filepath = ''input.mp4'', output_arg = None, transpose_arg = None, yes = False\<rparr>)
     = (None :: bytes option)
   \<and> filter is_transcode (log (snd (main example_env
      \<lparr>filepath = ''input.mp4'', output_arg = None, transpose_arg = None, yes = False\<rparr>
      Map.empty)))
     = [Transcode ''input.mp4'' ''input.wav'' False]
   \<and> process (example_env\<lparr>ffmpeg_run := silent_ffmpeg\<rparr>)
        ''input.mp4'' ''input.wav'' False None \<lparr>files = [''input.wav'' \<mapsto> [7]], log = []\<rparr>
     = (Inr (),
        \<lparr>files = [''input.wav'' \<mapsto> [7]],
           log = [Transcode ''input.mp4'' ''input.wav'' False, Echo ''Wrote: input.wav'']\<rparr>)"
  by (simp add: example_env_def run_defs silent_ffmpeg_def wrote_text_def)

section \<open>The choice between the two paths\<close>










lemma run_error_case:
  "(case r of RunOk c \<Rightarrow> False | RunError se' left \<Rightarrow> se' = se | RunOther m \<Rightarrow> False)
   \<Longrightarrow> \<exists>left. r = RunError se left"
  by (cases r) auto

text \<open>
  C7, amended. Whenever the transcode step ends with \<open>ffmpeg.Error\<close>, the run fails
  with the message \<open>ffmpeg error: \<close> followed by the captured error stream, decoded;
  the exit status is non-zero and ffmpeg was run once. The message is a single line
  exactly when the captured error stream has no line break.
\<close>

theorem ffmpeg_failure_surfaced:
  assumes "guard_lets_through env a fs0" and "transcode_fails env a fs0 se"
  shows "fst (main env a fs0) = Inl (ClickException (''ffmpeg error: '' @ stderr_text env se))
       \<and> exit_code (fst (main env a fs0)) \<noteq> 0
       \<and> length (filter is_transcode (log (snd (main env a fs0)))) = 1
       \<and> ((CHR 0x0A \<in> set (''ffmpeg error: '' @ stderr_text env se))
            = (CHR 0x0A \<in> set (stderr_text env se)))"
proof (cases "transpose_arg a")
  case None
  then have "\<exists>left. ffmpeg_run env (filepath a) (resolve_out_path a)
       (yes a \<or> fs0 (resolve_out_path a) \<noteq> None) fs0 = RunError se left"
    using assms(2) by (intro run_error_case) (simp add: transcode_fails_def)
  then obtain left where
    "ffmpeg_run env (filepath a) (resolve_out_path a)
       (yes a \<or> fs0 (resolve_out_path a) \<noteq> None) fs0 = RunError se left" ..
  then show ?thesis
    using None
    by (auto simp: main_through [OF assms(1)] process_def pipeline_def direct_path_def
          run_ffmpeg_def Let_def ffmpeg_error_text_def exit_code_def split: option.splits)
next
  case (Some n)
  then have d: "deps_available env"
    using assms(2) by (simp add: transcode_fails_def)
  obtain name where t: "mktemp env fs0 = Inr name"
    using assms(2) Some by (cases "mktemp env fs0") (simp_all add: transcode_fails_def)
  have "\<exists>left. ffmpeg_run env (filepath a) (name @ ''.wav'') True (fs0(name @ ''.wav'' \<mapsto> []))
              = RunError se left"
    using assms(2) Some t by (intro run_error_case) (simp add: transcode_fails_def)
  then obtain left where
    f: "ffmpeg_run env (filepath a) (name @ ''.wav'') True (fs0(name @ ''.wav'' \<mapsto> []))
              = RunError se left" ..
  show ?thesis
    using Some d t f
    by (auto simp: main_through [OF assms(1)] process_def pipeline_def transpose_path_def
          transpose_steps_def cleanup_def os_remove_def path_exists_def
          run_ffmpeg_def Let_def ffmpeg_error_text_def exit_code_def split: option.splits)
qed

theorem ffmpeg_failure_surfaced_witness:
  "fst (main (example_env\<lparr>ffmpeg_run := (\<lambda>i d ov f. RunError (StderrBytes [102, 97, 105, 108]) None)\<rparr>)
      \<lparr>filepath = ''input.mp4'', output_arg = None, transpose_arg = Some 3, yes = True\<rparr>
      Map.empty) = Inl (ClickException ''ffmpeg error: fail'')"
  using ffmpeg_failure_surfaced [of
      "example_env\<lparr>ffmpeg_run := (\<lambda>i d ov f. RunError (StderrBytes [102, 97, 105, 108]) None)\<rparr>"
      "\<lparr>filepath = ''input.mp4'', output_arg = None, transpose_arg = Some 3, yes = True\<rparr>"
      Map.empty "StderrBytes [102, 97, 105, 108]"]
  by (simp add: guard_lets_through_def transcode_fails_def example_env_def stderr_text_def
        ascii_decode_fail)

text \<open>
  C7 as stated fails: an error stream of two lines gives a message of two lines.
\<close>

theorem ffmpeg_failure_counterexample:
  "fst (main (example_env\<lparr>ffmpeg_run := (\<lambda>i d ov f. RunError (StderrBytes [97, 10, 98]) None)\<rparr>)
      \<lparr>filepath = ''input.mp4'', output_arg = None, transpose_arg = None, yes = False\<rparr>
      Map.empty) = Inl (ClickException (''ffmpeg error: a'' @ [CHR 0x0A] @ ''b''))
   \<and> CHR 0x0A \<in> set (''ffmpeg error: a'' @ [CHR 0x0A] @ ''b'')"
  by (simp add: example_env_def run_defs ffmpeg_error_text_def stderr_text_def
        ascii_decode_two_lines)

end
